theory Spec2Isabelle
  imports Main
begin

section \<open>The Bulk Extractor task of Turbinia\<close>

text \<open>
  A shallow embedding of \<^verbatim>\<open>turbinia/workers/bulk_extractor.py\<close>: the method
  \<^verbatim>\<open>BulkExtractorTask.generate_summary_report\<close>, which turns the \<^verbatim>\<open>report.xml\<close>
  written by the tool into a text report and a one-line summary, and the method
  \<^verbatim>\<open>BulkExtractorTask.run\<close>, which runs the tool, calls the former and closes the task
  result.  Python exceptions are values of the type \<open>exn\<close>; the mutable objects the two
  methods touch are passed in and returned.
\<close>

subsection \<open>Exceptions\<close>

datatype exn =
    TurbiniaException string
  | AttributeError string
  | ParseError
  | StopIteration
  | ValueError string
  | TypeError
  | OtherException string

text \<open>The \<^verbatim>\<open>str()\<close> of an exception is its message.\<close>

fun str_exn :: "exn \<Rightarrow> string" where
  "str_exn (TurbiniaException m) = m"
| "str_exn (AttributeError m) = m"
| "str_exn (ValueError m) = m"
| "str_exn (OtherException m) = m"
| "str_exn ParseError = ''ParseError''"
| "str_exn StopIteration = []"
| "str_exn TypeError = ''TypeError''"

subsection \<open>Paths: \<^verbatim>\<open>os.path.basename\<close> and \<^verbatim>\<open>os.path.join\<close> (POSIX)\<close>

text \<open>\<^verbatim>\<open>basename(p)\<close> is the part of \<^verbatim>\<open>p\<close> after its last slash.\<close>

definition os_path_basename :: "string \<Rightarrow> string" where
  "os_path_basename p = rev (takeWhile (\<lambda>c. c \<noteq> CHR ''/'') (rev p))"

text \<open>
  \<^verbatim>\<open>join(a, b)\<close>: an absolute \<^verbatim>\<open>b\<close> replaces \<^verbatim>\<open>a\<close>; otherwise \<^verbatim>\<open>b\<close> is appended,
  after a slash unless \<^verbatim>\<open>a\<close> is empty or ends with one.
\<close>

definition os_path_join :: "string \<Rightarrow> string \<Rightarrow> string" where
  "os_path_join a b =
     (if b \<noteq> [] \<and> hd b = CHR ''/'' then b
      else if a = [] \<or> last a = CHR ''/'' then a @ b
      else a @ ''/'' @ b)"

subsection \<open>Integers and text: \<^verbatim>\<open>str\<close>, \<^verbatim>\<open>format\<close> and \<^verbatim>\<open>int\<close>\<close>

definition digit_char :: "nat \<Rightarrow> char" where
  "digit_char d = ''0123456789'' ! (d mod 10)"

fun str_nat :: "nat \<Rightarrow> string" where
  "str_nat n = (if n < 10 then [digit_char n] else str_nat (n div 10) @ [digit_char (n mod 10)])"

declare str_nat.simps [simp del]

text \<open>The decimal numeral of an integer, which is unbounded in Python.\<close>

definition decimal :: "int \<Rightarrow> string" where
  "decimal i = (if i < 0 then CHR ''-'' # str_nat (nat (- i)) else str_nat (nat i))"

definition num_digits :: "int \<Rightarrow> nat" where
  "num_digits i = length (str_nat (nat \<bar>i\<bar>))"

text \<open>
  The interpreter limits the number of digits in a conversion between \<^verbatim>\<open>int\<close> and
  \<^verbatim>\<open>str\<close>: \<^verbatim>\<open>sys.int_max_str_digits\<close>, 4300 unless configured otherwise.  Beyond the limit
  the conversion raises \<^verbatim>\<open>ValueError\<close>, in either direction.
\<close>

definition int_max_str_digits :: nat where
  "int_max_str_digits = 4300"

definition limit_message :: string where
  "limit_message = ''Exceeds the limit (4300 digits) for integer string conversion''"

text \<open>
  \<^verbatim>\<open>str(i)\<close>, which is also what \<^verbatim>\<open>'{0}'.format(i)\<close> writes for an integer: the decimal
  numeral, or \<^verbatim>\<open>ValueError\<close> when it has more digits than the limit.
\<close>

definition str_int :: "int \<Rightarrow> exn + string" where
  "str_int i =
     (if int_max_str_digits < num_digits i then Inl (ValueError limit_message)
      else Inr (decimal i))"

text \<open>
  \<^verbatim>\<open>'{0}'.format(x)\<close> where \<^verbatim>\<open>x\<close> is the \<^verbatim>\<open>text\<close> of an element: a string, or
  \<^verbatim>\<open>None\<close>, which is rendered as the four letters \<^verbatim>\<open>None\<close>.
\<close>

definition format_text :: "string option \<Rightarrow> string" where
  "format_text x = (case x of None \<Rightarrow> ''None'' | Some s \<Rightarrow> s)"

text \<open>
  \<^verbatim>\<open>int(s)\<close> in base ten on ASCII text: white space around the literal is dropped, one
  sign is allowed, then digits, where a single underscore may stand between two digits.
  Anything else raises \<^verbatim>\<open>ValueError\<close>, and so does a literal with more digits than the
  limit, leading zeros counted and underscores not; the \<^verbatim>\<open>ValueError\<close> carries the text
  that was rejected.  \<^verbatim>\<open>int(None)\<close> raises \<^verbatim>\<open>TypeError\<close>.
  Beyond ASCII, Python also reads the decimal digits and the spaces of other scripts;
  \<open>ascii_text\<close> marks the texts on which \<open>py_int\<close> is \<^verbatim>\<open>int\<close>.
\<close>

definition ascii_text :: "string option \<Rightarrow> bool" where
  "ascii_text x = (case x of None \<Rightarrow> True | Some s \<Rightarrow> list_all (\<lambda>c. \<not> digit7 c) s)"

definition is_space :: "char \<Rightarrow> bool" where
  "is_space c = (c \<in> set [CHR '' '', CHR 0x09, CHR 0x0A, CHR 0x0B, CHR 0x0C, CHR 0x0D])"

definition strip :: "string \<Rightarrow> string" where
  "strip s = rev (dropWhile is_space (rev (dropWhile is_space s)))"

definition digit_val :: "char \<Rightarrow> nat option" where
  "digit_val c = map_of (zip ''0123456789'' [0 ..< 10]) c"

fun parse_digits :: "nat \<Rightarrow> string \<Rightarrow> nat option" where
  "parse_digits acc [] = Some acc"
| "parse_digits acc [c] =
     (case digit_val c of None \<Rightarrow> None | Some v \<Rightarrow> Some (acc * 10 + v))"
| "parse_digits acc (c # d # rest) =
     (if c = CHR ''_'' then
        (case digit_val d of None \<Rightarrow> None | Some v \<Rightarrow> parse_digits (acc * 10 + v) rest)
      else
        (case digit_val c of None \<Rightarrow> None | Some v \<Rightarrow> parse_digits (acc * 10 + v) (d # rest)))"

definition parse_decimal :: "string \<Rightarrow> nat option" where
  "parse_decimal s =
     (case s of [] \<Rightarrow> None
      | c # rest \<Rightarrow> (case digit_val c of None \<Rightarrow> None | Some v \<Rightarrow> parse_digits v rest))"

definition py_int :: "string option \<Rightarrow> exn + int" where
  "py_int x =
     (case x of None \<Rightarrow> Inl TypeError
      | Some s \<Rightarrow>
          (let t = strip s;
               neg = (t \<noteq> [] \<and> hd t = CHR ''-'');
               body = (if t \<noteq> [] \<and> (hd t = CHR ''-'' \<or> hd t = CHR ''+'') then tl t else t)
           in case parse_decimal body of
                None \<Rightarrow> Inl (ValueError s)
              | Some n \<Rightarrow>
                  if int_max_str_digits < length (filter (\<lambda>c. c \<noteq> CHR ''_'') body)
                  then Inl (ValueError s)
                  else Inr (if neg then - int n else int n)))"

text \<open>\<^verbatim>\<open>'\n'.join(lines)\<close>.\<close>

fun join_lines :: "string list \<Rightarrow> string" where
  "join_lines [] = []"
| "join_lines [l] = l"
| "join_lines (l # m # ls) = l @ [CHR 0x0A] @ join_lines (m # ls)"

text \<open>
  \<^verbatim>\<open>s.split(sep)\<close> for a separator of one character; \<open>cur\<close> is the piece read so far.
\<close>

fun split_from :: "char \<Rightarrow> string \<Rightarrow> string \<Rightarrow> string list" where
  "split_from sep cur [] = [cur]"
| "split_from sep cur (c # cs) =
     (if c = sep then cur # split_from sep [] cs else split_from sep (cur @ [c]) cs)"

text \<open>\<^verbatim>\<open>text.split('\n')\<close>, the reading of a report as its lines.\<close>

definition split_lines :: "string \<Rightarrow> string list" where
  "split_lines s = split_from (CHR 0x0A) [] s"

subsection \<open>The report document: \<^verbatim>\<open>xml.etree.ElementTree\<close>\<close>

text \<open>
  An element has a tag, a text (\<^verbatim>\<open>None\<close> when the element has no character data before
  its first child) and its children in document order.  The code reads nothing else of
  an element.  The attribute \<^verbatim>\<open>text\<close> is the selector \<open>text_of\<close>.
\<close>

datatype element = Element (tag: string) (text_of: "string option") (children: "element list")

text \<open>
  \<^verbatim>\<open>elem.iter()\<close>: the element itself, then its descendants, in document order.
\<close>

fun iter :: "element \<Rightarrow> element list" where
  "iter (Element t x cs) = Element t x cs # concat (map iter cs)"

text \<open>
  \<^verbatim>\<open>find(path)\<close> for a path of tags separated by slashes.  Each step replaces the current
  elements by those of their children that carry the step's tag; \<^verbatim>\<open>find\<close> returns the
  first element that is left, or \<^verbatim>\<open>None\<close>.  On an \<^verbatim>\<open>ElementTree\<close> the search starts at
  the root element.
\<close>

definition path_steps :: "string \<Rightarrow> string list" where
  "path_steps path = split_from (CHR ''/'') [] path"

fun select_steps :: "string list \<Rightarrow> element list \<Rightarrow> element list" where
  "select_steps [] result = result"
| "select_steps (t # ts) result =
     select_steps ts (concat (map (\<lambda>elem. filter (\<lambda>e. tag e = t) (children elem)) result))"

definition find_elem :: "element \<Rightarrow> string \<Rightarrow> element option" where
  "find_elem root path =
     (case select_steps (path_steps path) [root] of [] \<Rightarrow> None | e # _ \<Rightarrow> Some e)"

text \<open>
  \<^verbatim>\<open>xml.find(path).text\<close>: reading \<^verbatim>\<open>text\<close> of \<^verbatim>\<open>None\<close> raises \<^verbatim>\<open>AttributeError\<close>.
\<close>

definition no_text_message :: string where
  "no_text_message =
     [CHR 0x27] @ ''NoneType'' @ [CHR 0x27] @ '' object has no attribute '' @
     [CHR 0x27] @ ''text'' @ [CHR 0x27]"

definition find_text :: "element \<Rightarrow> string \<Rightarrow> exn + string option" where
  "find_text root path =
     (case find_elem root path of
        None \<Rightarrow> Inl (AttributeError no_text_message)
      | Some e \<Rightarrow> Inr (text_of e))"

subsection \<open>The text formatter\<close>

text \<open>
  The module \<^verbatim>\<open>turbinia.lib.text_formatter\<close> is imported, not defined, by the file.  Its
  three functions used here are parameters of the model; they take a string and return
  a string.
\<close>

record text_formatter =
  heading4 :: "string \<Rightarrow> string"
  heading5 :: "string \<Rightarrow> string"
  bullet :: "string \<Rightarrow> string"

text \<open>
  Modelled from the spec: the formatter functions are missing from the sources; the spec
  describes them as a fixed markup of heading levels and bullet lines without failure
  modes.  This instance writes Markdown; concrete inputs are evaluated with it.
\<close>

definition markdown :: text_formatter where
  "markdown =
     \<lparr> heading4 = (\<lambda>t. ''#### '' @ t),
       heading5 = (\<lambda>t. ''##### '' @ t),
       bullet = (\<lambda>t. ''* '' @ t) \<rparr>"

subsection \<open>The file system, the logger and the observable state\<close>

text \<open>
  What \<^verbatim>\<open>xml_tree.parse\<close> does on an existing path: it raises, or it returns the tree
  with the given root element.
\<close>

datatype fs_entry = Unparseable | Document element

type_synonym filesystem = "string \<rightharpoonup> fs_entry"

text \<open>
  The state \<^verbatim>\<open>generate_summary_report\<close> works on: the files, the warnings sent to the
  module's logger, and the arguments of the calls of the method so far.
\<close>

record world =
  files :: filesystem
  warnings :: "string list"
  report_calls :: "string list"

subsection \<open>\<^verbatim>\<open>generate_summary_report\<close>\<close>

text \<open>
  The loop over \<^verbatim>\<open>feature_iter\<close> (lines 127 to 132).  The \<^verbatim>\<open>for\<close> statement and the two
  calls of \<^verbatim>\<open>next\<close> draw from the same iterator, here the list of the elements not yet
  drawn.  \<^verbatim>\<open>next\<close> on the exhausted iterator raises \<^verbatim>\<open>StopIteration\<close> and \<^verbatim>\<open>int\<close> may
  raise; neither is an \<^verbatim>\<open>AttributeError\<close>, so the findings are of no use afterwards.
\<close>

fun scanner_loop ::
  "text_formatter \<Rightarrow> element list \<Rightarrow> string list \<Rightarrow> int \<Rightarrow> exn + (string list \<times> int)" where
  "scanner_loop fmt [] findings features_count = Inr (findings, features_count)"
| "scanner_loop fmt [f] findings features_count =
     (if tag f = ''feature_file'' then Inl StopIteration
      else Inr (findings, features_count))"
| "scanner_loop fmt [f, name] findings features_count =
     (if tag f = ''feature_file'' then Inl StopIteration
      else scanner_loop fmt [name] findings features_count)"
| "scanner_loop fmt (f # name # count # rest) findings features_count =
     (if tag f = ''feature_file'' then
        (case py_int (text_of count) of
           Inl e \<Rightarrow> Inl e
         | Inr n \<Rightarrow>
             scanner_loop fmt rest
               (findings @ [bullet fmt (format_text (text_of name) @ '':'' @ format_text (text_of count))])
               (features_count + n))
      else scanner_loop fmt (name # count # rest) findings features_count)"

text \<open>
  The body of the \<^verbatim>\<open>try\<close> statement (lines 101 to 134).  \<^verbatim>\<open>findings\<close> and
  \<^verbatim>\<open>features_count\<close> are local variables that outlive an exception, so the result is
  their final value together with the exception that ended the body, if one did.
\<close>

definition try_body :: "text_formatter \<Rightarrow> element \<Rightarrow> string list \<times> int \<times> exn option" where
  "try_body fmt xml =
     (let findings0 = [heading4 fmt ''Bulk Extractor Results'', heading5 fmt ''Run Summary'']
      in case find_text xml ''creator/program'' of
        Inl e \<Rightarrow> (findings0, 0, Some e)
      | Inr program \<Rightarrow>
      (case find_text xml ''creator/version'' of
        Inl e \<Rightarrow> (findings0, 0, Some e)
      | Inr version \<Rightarrow>
      (let findings1 = findings0 @
             [bullet fmt (''Program: '' @ format_text program @ '' - '' @ format_text version)]
       in case find_text xml ''creator/execution_environment/command_line'' of
        Inl e \<Rightarrow> (findings1, 0, Some e)
      | Inr command_line \<Rightarrow>
      (let findings2 = findings1 @ [bullet fmt (''Command Line: '' @ format_text command_line)]
       in case find_text xml ''creator/execution_environment/start_time'' of
        Inl e \<Rightarrow> (findings2, 0, Some e)
      | Inr start_time \<Rightarrow>
      (let findings3 = findings2 @ [bullet fmt (''Start Time: '' @ format_text start_time)]
       in case find_text xml ''report/elapsed_seconds'' of
        Inl e \<Rightarrow> (findings3, 0, Some e)
      | Inr elapsed \<Rightarrow>
      (let findings4 = findings3 @ [bullet fmt (''Elapsed Time: '' @ format_text elapsed)]
       in case find_elem xml ''feature_files'' of
        None \<Rightarrow>
          (findings4 @ [heading5 fmt ''There are no findings to report.''], 0, None)
      | Some feature_files \<Rightarrow>
          (case scanner_loop fmt (iter feature_files)
                  (findings4 @ [heading5 fmt ''Scanner Results'']) 0 of
             Inl e \<Rightarrow> (findings4 @ [heading5 fmt ''Scanner Results''], 0, Some e)
           | Inr (findings, features_count) \<Rightarrow> (findings, features_count, None))))))))"

definition not_available :: string where
  "not_available = ''Execution successful, but the report is not available.''"

text \<open>Line 139; the conversion of the total may raise.\<close>

definition summary_of :: "int \<Rightarrow> exn + string" where
  "summary_of features_count =
     (case str_int features_count of
        Inl e \<Rightarrow> Inl e
      | Inr numeral_text \<Rightarrow> Inr (numeral_text @ '' artifacts have been extracted.''))"

definition warning_of :: "exn \<Rightarrow> string" where
  "warning_of e = ''Error parsing feature from Bulk Extractor report: '' @ str_exn e"

text \<open>
  The statements after the \<^verbatim>\<open>try\<close> statement (lines 139 to 141): the summary is
  formatted, which is outside the \<^verbatim>\<open>try\<close> statement, then the findings are joined and
  the pair is returned.
\<close>

definition return_report ::
  "string list \<Rightarrow> int \<Rightarrow> world \<Rightarrow> (exn + string \<times> string) \<times> world" where
  "return_report findings features_count w =
     (case summary_of features_count of
        Inl e \<Rightarrow> (Inl e, w)
      | Inr summary \<Rightarrow> (Inr (join_lines findings, summary), w))"

text \<open>
  The method: the report path is looked up in the files; a missing file gives the fixed
  pair; \<^verbatim>\<open>xml_tree.parse\<close> may raise; an \<^verbatim>\<open>AttributeError\<close> of the body is logged and
  the report is built from what the body left; any other exception leaves the method,
  and so does the one of formatting the summary.
  The result is the exception or the pair \<^verbatim>\<open>(report, summary)\<close>, and the state after.
\<close>

definition generate_summary_report ::
  "text_formatter \<Rightarrow> string \<Rightarrow> world \<Rightarrow> (exn + string \<times> string) \<times> world" where
  "generate_summary_report fmt output_file_path w0 =
     (let w = w0\<lparr>report_calls := report_calls w0 @ [output_file_path]\<rparr>;
          report_path = os_path_join output_file_path ''report.xml''
      in case files w report_path of
           None \<Rightarrow> (Inr (not_available, not_available), w)
         | Some Unparseable \<Rightarrow> (Inl ParseError, w)
         | Some (Document xml) \<Rightarrow>
             (case try_body fmt xml of
                (findings, features_count, None) \<Rightarrow>
                  return_report findings features_count w
              | (findings, features_count, Some (AttributeError m)) \<Rightarrow>
                  return_report findings features_count
                    (w\<lparr>warnings := warnings w @ [warning_of (AttributeError m)]\<rparr>)
              | (findings, features_count, Some e) \<Rightarrow> (Inl e, w)))"

subsection \<open>\<^verbatim>\<open>run\<close>\<close>

text \<open>
  An evidence object carries a path and a text; the task carries its output directory.
\<close>

record evidence =
  local_path :: string
  text_data :: "string option"

record bulk_extractor_task =
  output_dir :: string

text \<open>
  Modelled from the spec: the class of the task result is missing from the sources.  The
  spec gives it a log sink, the report data, a success flag and a status, and a terminal
  close operation; \<open>closed\<close> counts the calls of \<^verbatim>\<open>close\<close>.
\<close>

record task_result =
  result_log :: "string list"
  report_data :: "string option"
  closed :: nat
  success :: "bool option"
  status :: "string option"

definition log_result :: "task_result \<Rightarrow> string \<Rightarrow> task_result" where
  "log_result result message = result\<lparr>result_log := result_log result @ [message]\<rparr>"

definition close_result :: "task_result \<Rightarrow> bool \<Rightarrow> string \<Rightarrow> task_result" where
  "close_result result ok st =
     result\<lparr>closed := closed result + 1, success := Some ok, status := Some st\<rparr>"

text \<open>
  The two calls that leave the file: \<^verbatim>\<open>self.execute\<close>, which runs the command line in
  a shell, and \<^verbatim>\<open>output_evidence.compress\<close>.  Each may change the files and may raise any
  exception; both are parameters of the model.  \<^verbatim>\<open>execute\<close> is called without
  \<^verbatim>\<open>close\<close>, so it leaves the closing of the result to \<^verbatim>\<open>run\<close>.
\<close>

record collaborators =
  execute :: "string \<Rightarrow> filesystem \<Rightarrow> exn option \<times> filesystem"
  compress :: "evidence \<Rightarrow> filesystem \<Rightarrow> exn option \<times> filesystem"

text \<open>
  The \<^verbatim>\<open>except TurbiniaException\<close> clause (lines 70 to 72): a task-level exception closes
  the result as failed with the exception's message and \<^verbatim>\<open>run\<close> returns; every other
  exception leaves \<^verbatim>\<open>run\<close>.
\<close>

definition except_clause ::
  "exn \<Rightarrow> task_result \<Rightarrow> evidence \<Rightarrow> world \<Rightarrow> exn option \<times> task_result \<times> evidence \<times> world" where
  "except_clause e result output_evidence w =
     (case e of
        TurbiniaException m \<Rightarrow> (None, close_result result False (str_exn e), output_evidence, w)
      | _ \<Rightarrow> (Some e, result, output_evidence, w))"

text \<open>
  The path of the output directory (lines 49 and 50) and the command line (lines 57 and
  58) that \<^verbatim>\<open>run\<close> computes from the task and the evidence.
\<close>

definition output_file_path_of :: "bulk_extractor_task \<Rightarrow> evidence \<Rightarrow> string" where
  "output_file_path_of self evidence =
     os_path_join (output_dir self) (os_path_basename (local_path evidence))"

definition cmd_of :: "bulk_extractor_task \<Rightarrow> evidence \<Rightarrow> string" where
  "cmd_of self evidence =
     ''bulk_extractor '' @ local_path evidence @ '' -o '' @ output_file_path_of self evidence"

text \<open>
  The method returns the result object it was given; the model returns the exception
  that left the method, if one did, and the final values of the result, of the output
  evidence and of the state.
\<close>

definition run ::
  "collaborators \<Rightarrow> text_formatter \<Rightarrow> bulk_extractor_task \<Rightarrow> evidence \<Rightarrow> task_result \<Rightarrow> world
     \<Rightarrow> exn option \<times> task_result \<times> evidence \<times> world" where
  "run c fmt self evidence result w =
     (let output_file_path = output_file_path_of self evidence;
          output_evidence = \<lparr>local_path = output_file_path, text_data = None\<rparr>;
          cmd = cmd_of self evidence;
          result1 = log_result result (''Running Bulk Extractor as ['' @ cmd @ '']'')
      in case execute c cmd (files w) of
           (Some e, fs1) \<Rightarrow> except_clause e result1 output_evidence (w\<lparr>files := fs1\<rparr>)
         | (None, fs1) \<Rightarrow>
             (case generate_summary_report fmt output_file_path (w\<lparr>files := fs1\<rparr>) of
                (Inl e, w2) \<Rightarrow> except_clause e result1 output_evidence w2
              | (Inr (report, summary), w2) \<Rightarrow>
                  (let output_evidence2 = output_evidence\<lparr>text_data := Some report\<rparr>;
                       result2 = result1\<lparr>report_data := text_data output_evidence2\<rparr>
                   in case compress c output_evidence2 (files w2) of
                        (Some e, fs3) \<Rightarrow>
                          except_clause e result2 output_evidence2 (w2\<lparr>files := fs3\<rparr>)
                      | (None, fs3) \<Rightarrow>
                          (None, close_result result2 True summary, output_evidence2,
                           w2\<lparr>files := fs3\<rparr>))))"

subsection \<open>Reading the scanner-results section as records\<close>

text \<open>
  A record of the section is a marker element followed, in document order, by a name
  element and a count element.  \<open>record_elems\<close> is what the iterator yields for one
  record, \<open>record_bullet\<close> is the bullet line the loop writes for it, and
  \<open>record_counts r j\<close> says that the marker carries the tag \<^verbatim>\<open>feature_file\<close> and that the
  text of the count element is the decimal integer \<open>j\<close>.
\<close>

definition record_elems :: "element \<times> element \<times> element \<Rightarrow> element list" where
  "record_elems r = (case r of (m, n, c) \<Rightarrow> [m, n, c])"

definition record_bullet :: "text_formatter \<Rightarrow> element \<times> element \<times> element \<Rightarrow> string" where
  "record_bullet fmt r =
     (case r of (m, n, c) \<Rightarrow> bullet fmt (format_text (text_of n) @ '':'' @ format_text (text_of c)))"

definition record_counts :: "element \<times> element \<times> element \<Rightarrow> int \<Rightarrow> bool" where
  "record_counts r j =
     (case r of (m, n, c) \<Rightarrow> tag m = ''feature_file'' \<and> py_int (text_of c) = Inr j)"

text \<open>
  The five run-metadata fields of a report, each found with the given text.
\<close>

definition run_metadata ::
  "element \<Rightarrow> string option \<Rightarrow> string option \<Rightarrow> string option \<Rightarrow> string option
     \<Rightarrow> string option \<Rightarrow> bool" where
  "run_metadata xml program version command_line start_time elapsed =
     (find_text xml ''creator/program'' = Inr program \<and>
      find_text xml ''creator/version'' = Inr version \<and>
      find_text xml ''creator/execution_environment/command_line'' = Inr command_line \<and>
      find_text xml ''creator/execution_environment/start_time'' = Inr start_time \<and>
      find_text xml ''report/elapsed_seconds'' = Inr elapsed)"

text \<open>
  The findings written for the run summary: the two headings and the bullets up to the
  start time, and the same followed by the bullet of the elapsed time.
\<close>

definition start_lines ::
  "text_formatter \<Rightarrow> string option \<Rightarrow> string option \<Rightarrow> string option \<Rightarrow> string option
     \<Rightarrow> string list" where
  "start_lines fmt program version command_line start_time =
     [heading4 fmt ''Bulk Extractor Results'',
      heading5 fmt ''Run Summary'',
      bullet fmt (''Program: '' @ format_text program @ '' - '' @ format_text version),
      bullet fmt (''Command Line: '' @ format_text command_line),
      bullet fmt (''Start Time: '' @ format_text start_time)]"

definition summary_lines ::
  "text_formatter \<Rightarrow> string option \<Rightarrow> string option \<Rightarrow> string option \<Rightarrow> string option
     \<Rightarrow> string option \<Rightarrow> string list" where
  "summary_lines fmt program version command_line start_time elapsed =
     start_lines fmt program version command_line start_time @
     [bullet fmt (''Elapsed Time: '' @ format_text elapsed)]"

text \<open>The lines of the report a call returned; none when it raised.\<close>

definition report_lines :: "exn + string \<times> string \<Rightarrow> string list" where
  "report_lines r = (case r of Inl e \<Rightarrow> [] | Inr (report, summary) \<Rightarrow> split_lines report)"

text \<open>The state after a call of \<^verbatim>\<open>generate_summary_report\<close> that logs nothing.\<close>

definition called :: "string \<Rightarrow> world \<Rightarrow> world" where
  "called output_file_path w = w\<lparr>report_calls := report_calls w @ [output_file_path]\<rparr>"

subsection \<open>Example inputs\<close>

text \<open>
  The report of the example in the specification: program \<^verbatim>\<open>bulk_extractor\<close>, version
  \<^verbatim>\<open>1.6.0\<close>, 42 seconds, and the scanners \<^verbatim>\<open>email\<close> with 5 and \<^verbatim>\<open>url\<close> with 10
  features.  The scanner results are given in the layout the specification describes,
  where marker, name and count are children of the section, and in the layout where name
  and count are children of the marker.
\<close>

definition leaf :: "string \<Rightarrow> string \<Rightarrow> element" where
  "leaf t x = Element t (Some x) []"

definition example_creator :: element where
  "example_creator =
     Element ''creator'' None
       [leaf ''program'' ''bulk_extractor'',
        leaf ''version'' ''1.6.0'',
        Element ''execution_environment'' None
          [leaf ''command_line'' ''bulk_extractor in -o out'',
           leaf ''start_time'' ''2020-01-01T00:00:00Z'']]"

definition example_report :: element where
  "example_report = Element ''report'' None [leaf ''elapsed_seconds'' ''42'']"

definition marker :: "element list \<Rightarrow> element" where
  "marker cs = Element ''feature_file'' None cs"

definition flat_section :: element where
  "flat_section =
     Element ''feature_files'' None
       [marker [], leaf ''name'' ''email'', leaf ''count'' ''5'',
        marker [], leaf ''name'' ''url'', leaf ''count'' ''10'']"


definition empty_section :: element where
  "empty_section = Element ''feature_files'' None []"

definition bad_count_section :: element where
  "bad_count_section =
     Element ''feature_files'' None
       [marker [leaf ''name'' ''email'', leaf ''count'' ''5''],
        marker [leaf ''name'' ''url'', leaf ''count'' ''ten'']]"

definition dangling_section :: element where
  "dangling_section =
     Element ''feature_files'' None
       [marker [leaf ''name'' ''email'', leaf ''count'' ''5''],
        marker [leaf ''name'' ''url'']]"

text \<open>
  Counts at the digit limit: a count of 4301 digits, and two counts of \<open>k + 1\<close> digits
  each, a five followed by zeros, whose sum is a one followed by \<open>k + 1\<close> zeros.
\<close>

definition long_count :: string where
  "long_count = replicate 4301 CHR ''9''"

definition long_count_section :: element where
  "long_count_section =
     Element ''feature_files'' None
       [marker [leaf ''name'' ''email'', leaf ''count'' long_count]]"

definition half_count :: "nat \<Rightarrow> string" where
  "half_count k = CHR ''5'' # replicate k CHR ''0''"

definition overflow_section :: "nat \<Rightarrow> element" where
  "overflow_section k =
     Element ''feature_files'' None
       [marker [leaf ''name'' ''email'', leaf ''count'' (half_count k)],
        marker [leaf ''name'' ''url'', leaf ''count'' (half_count k)]]"

definition example_document :: "element list \<Rightarrow> element" where
  "example_document sections =
     Element ''dfxml'' None ([example_creator, example_report] @ sections)"


text \<open>A state whose only file is the report of the output directory \<^verbatim>\<open>/out/img\<close>.\<close>

definition world_of :: "fs_entry option \<Rightarrow> world" where
  "world_of entry =
     \<lparr> files = (\<lambda>path. if path = ''/out/img/report.xml'' then entry else None),
       warnings = [],
       report_calls = [] \<rparr>"

text \<open>
  A task with the output directory \<^verbatim>\<open>/out\<close>, the evidence \<^verbatim>\<open>/evidence/img\<close>, a fresh
  result, and collaborators that leave the files alone: one where both calls return, one
  where the tool invocation raises a task-level exception.
\<close>

definition example_task :: bulk_extractor_task where
  "example_task = \<lparr> output_dir = ''/out'' \<rparr>"

definition example_evidence :: evidence where
  "example_evidence = \<lparr> local_path = ''/evidence/img'', text_data = None \<rparr>"

definition fresh_result :: task_result where
  "fresh_result =
     \<lparr> result_log = [], report_data = None, closed = 0, success = None, status = None \<rparr>"


definition tool_raises :: "string \<Rightarrow> collaborators" where
  "tool_raises message =
     \<lparr> execute = (\<lambda>cmd fs. (Some (TurbiniaException message), fs)),
       compress = (\<lambda>ev fs. (None, fs)) \<rparr>"

section \<open>Properties\<close>

subsection \<open>The loop over the scanner results\<close>

lemma scanner_loop_skip:
  assumes "tag f \<noteq> ''feature_file''"
  shows "scanner_loop fmt (f # rest) findings k = scanner_loop fmt rest findings k"
proof (cases rest)
  case Nil
  with assms show ?thesis by simp
next
  case (Cons a as)
  with assms show ?thesis by (cases as) simp_all
qed

lemma scanner_loop_records:
  "list_all2 record_counts records counts \<Longrightarrow>
   scanner_loop fmt (concat (map record_elems records) @ rest) findings k =
   scanner_loop fmt rest (findings @ map (record_bullet fmt) records) (k + sum_list counts)"
proof (induction records counts arbitrary: findings k rule: list_all2_induct)
  case Nil
  then show ?case by simp
next
  case (Cons r rs j js)
  obtain m n c where r: "r = (m, n, c)" by (cases r)
  from Cons.hyps(1) r have m: "tag m = ''feature_file''" and c: "py_int (text_of c) = Inr j"
    by (simp_all add: record_counts_def)
  show ?case
    using Cons.IH [of "findings @ [record_bullet fmt r]" "k + j"]
    by (simp add: r record_elems_def record_bullet_def m c add.assoc)
qed

lemma find_elem_tag:
  assumes "find_elem xml ''feature_files'' = Some ff"
  shows "tag ff = ''feature_files''"
proof -
  from assms obtain xs where
    "filter (\<lambda>e. tag e = ''feature_files'') (children xml) = ff # xs"
    by (auto simp: find_elem_def path_steps_def split: list.splits)
  then have "ff \<in> set (filter (\<lambda>e. tag e = ''feature_files'') (children xml))"
    by (simp del: set_filter)
  then show ?thesis by simp
qed

lemma py_int_error: "py_int x = Inl e \<Longrightarrow> e = TypeError \<or> (\<exists>s. e = ValueError s)"
  by (auto simp: py_int_def Let_def split: option.splits if_splits)

subsection \<open>The report of a parsed document\<close>

lemma try_body_metadata:
  assumes "run_metadata xml program version command_line start_time elapsed"
  shows "try_body fmt xml =
     (case find_elem xml ''feature_files'' of
        None \<Rightarrow>
          (summary_lines fmt program version command_line start_time elapsed @
             [heading5 fmt ''There are no findings to report.''], 0, None)
      | Some ff \<Rightarrow>
          (case scanner_loop fmt (iter ff)
                  (summary_lines fmt program version command_line start_time elapsed @
                     [heading5 fmt ''Scanner Results'']) 0 of
             Inl e \<Rightarrow>
               (summary_lines fmt program version command_line start_time elapsed @
                  [heading5 fmt ''Scanner Results''], 0, Some e)
           | Inr (findings, features_count) \<Rightarrow> (findings, features_count, None)))"
  using assms
  unfolding try_body_def run_metadata_def summary_lines_def start_lines_def Let_def
  by (simp split: option.split sum.split prod.split)

lemma report_of_document:
  assumes "files w (os_path_join p ''report.xml'') = Some (Document xml)"
  shows "generate_summary_report fmt p w =
     (case try_body fmt xml of
        (findings, features_count, None) \<Rightarrow>
          return_report findings features_count (called p w)
      | (findings, features_count, Some (AttributeError m)) \<Rightarrow>
          return_report findings features_count
            ((called p w)\<lparr>warnings := warnings w @ [warning_of (AttributeError m)]\<rparr>)
      | (findings, features_count, Some e) \<Rightarrow> (Inl e, called p w))"
  using assms unfolding generate_summary_report_def called_def Let_def
  by simp

lemma return_report_within_limit:
  assumes "num_digits k \<le> int_max_str_digits"
  shows "return_report findings k w =
     (Inr (join_lines findings, decimal k @ '' artifacts have been extracted.''), w)"
  using assms by (simp add: return_report_def summary_of_def str_int_def)

lemma return_report_beyond_limit:
  assumes "int_max_str_digits < num_digits k"
  shows "return_report findings k w = (Inl (ValueError limit_message), w)"
  using assms by (simp add: return_report_def summary_of_def str_int_def)

lemma return_report_0:
  "return_report findings 0 w =
     (Inr (join_lines findings, ''0 artifacts have been extracted.''), w)"
proof -
  have "num_digits 0 \<le> int_max_str_digits"
    by (simp add: num_digits_def int_max_str_digits_def str_nat.simps)
  from return_report_within_limit [OF this] show ?thesis
    by (simp add: decimal_def str_nat.simps digit_char_def)
qed

subsection \<open>Facts about the example inputs\<close>

lemma example_metadata:
  "run_metadata (example_document sections) (Some ''bulk_extractor'') (Some ''1.6.0'')
     (Some ''bulk_extractor in -o out'') (Some ''2020-01-01T00:00:00Z'') (Some ''42'')"
  by (simp add: run_metadata_def find_text_def find_elem_def path_steps_def
      example_document_def example_creator_def example_report_def leaf_def)

lemma example_section:
  "tag s = ''feature_files'' \<Longrightarrow> find_elem (example_document [s]) ''feature_files'' = Some s"
  by (simp add: find_elem_def path_steps_def
      example_document_def example_creator_def example_report_def)

lemma example_no_section:
  "find_elem (example_document []) ''feature_files'' = None"
  by (simp add: find_elem_def path_steps_def
      example_document_def example_creator_def example_report_def)

lemma world_of_report:
  "files (world_of entry) (os_path_join ''/out/img'' ''report.xml'') = entry"
  by (simp add: world_of_def os_path_join_def)

lemma py_int_examples:
  "py_int (Some ''5'') = Inr 5" "py_int (Some ''10'') = Inr 10"
  "py_int (Some ''ten'') = Inl (ValueError ''ten'')"
  by code_simp+

lemma py_int_literals:
  "py_int (Some '' +1_000 '') = Inr 1000" "py_int (Some ''-12'') = Inr (- 12)"
  "py_int (Some ''007'') = Inr 7" "py_int (Some ''1__0'') = Inl (ValueError ''1__0'')"
  "py_int (Some ''_1'') = Inl (ValueError ''_1'')" "py_int (Some ''1_'') = Inl (ValueError ''1_'')"
  "py_int (Some ''+ 5'') = Inl (ValueError ''+ 5'')" "py_int (Some []) = Inl (ValueError [])"
  "py_int (Some ''5.0'') = Inl (ValueError ''5.0'')" "py_int None = Inl TypeError"
  by code_simp+


subsection \<open>The report file is missing or unparseable\<close>

text \<open>
  Claim C5.  When the files hold nothing at the path \<^verbatim>\<open>report.xml\<close> below the output
  directory, \<^verbatim>\<open>generate_summary_report\<close> returns the pair whose two components are the
  fixed string \<^verbatim>\<open>Execution successful, but the report is not available.\<close>
\<close>

theorem no_report_fallback:
  assumes "files w (os_path_join p ''report.xml'') = None"
  shows "generate_summary_report fmt p w =
     (Inr (''Execution successful, but the report is not available.'',
           ''Execution successful, but the report is not available.''), called p w)"
  using assms
  by (simp add: generate_summary_report_def called_def Let_def not_available_def)

theorem no_report_fallback_witness:
  "generate_summary_report markdown ''/out/img'' (world_of None) =
     (Inr (''Execution successful, but the report is not available.'',
           ''Execution successful, but the report is not available.''),
      called ''/out/img'' (world_of None))"
  using no_report_fallback [OF world_of_report [of None], of markdown]
  by simp

text \<open>
  Claim C7.  When the report file exists and \<^verbatim>\<open>xml_tree.parse\<close> raises on it, the
  exception leaves \<^verbatim>\<open>generate_summary_report\<close>: the call is outside the \<^verbatim>\<open>try\<close>
  statement, and no report or summary is returned.
\<close>

theorem unparseable_report_raises:
  assumes "files w (os_path_join p ''report.xml'') = Some Unparseable"
  shows "generate_summary_report fmt p w = (Inl ParseError, called p w)"
  using assms
  by (simp add: generate_summary_report_def called_def Let_def)

theorem unparseable_report_raises_witness:
  "generate_summary_report markdown ''/out/img'' (world_of (Some Unparseable)) =
     (Inl ParseError, called ''/out/img'' (world_of (Some Unparseable)))"
  using unparseable_report_raises [OF world_of_report [of "Some Unparseable"], of markdown]
  by simp

subsection \<open>Scanner results\<close>

lemma try_body_records:
  assumes meta: "run_metadata xml program version command_line start_time elapsed"
    and sect: "find_elem xml ''feature_files'' = Some ff"
    and layout: "iter ff = ff # concat (map record_elems records)"
    and counts: "list_all2 record_counts records counts"
  shows "try_body fmt xml =
     (summary_lines fmt program version command_line start_time elapsed @
      [heading5 fmt ''Scanner Results''] @ map (record_bullet fmt) records,
      sum_list counts, None)"
proof -
  let ?lines = "summary_lines fmt program version command_line start_time elapsed @
                [heading5 fmt ''Scanner Results'']"
  have "tag ff \<noteq> ''feature_file''"
    using find_elem_tag [OF sect] by simp
  then have "scanner_loop fmt (iter ff) ?lines 0 =
      scanner_loop fmt (concat (map record_elems records) @ []) ?lines 0"
    using layout by (simp add: scanner_loop_skip)
  also have "\<dots> = Inr (?lines @ map (record_bullet fmt) records, sum_list counts)"
    using scanner_loop_records [OF counts, of fmt "[]" ?lines 0] by simp
  finally have loop: "scanner_loop fmt (iter ff) ?lines 0 =
      Inr (?lines @ map (record_bullet fmt) records, sum_list counts)" .
  show ?thesis
    by (simp add: try_body_metadata [OF meta] sect loop)
qed

text \<open>
  Claim C2, as the code has it.  Let the report have its five run-metadata fields and a
  scanner-results section under which the elements in document order are \<open>N\<close> records
  of marker, name and count, where \<^verbatim>\<open>int\<close> reads the text of the \<open>i\<close>-th count as the
  integer \<open>c\<^sub>i\<close>, which it does for a decimal literal within the digit limit, and let the
  sum of the counts have no more digits than the limit.  Then the summary is the sum of
  the counts followed by \<^verbatim>\<open> artifacts have been extracted.\<close>, and the report consists of
  the run summary, the heading \<^verbatim>\<open>Scanner Results\<close> and, below it, exactly \<open>N\<close> bullet
  lines, the \<open>i\<close>-th being \<^verbatim>\<open>name:count\<close> of the \<open>i\<close>-th record.
\<close>

theorem count_conservation:
  assumes doc: "files w (os_path_join p ''report.xml'') = Some (Document xml)"
    and meta: "run_metadata xml program version command_line start_time elapsed"
    and sect: "find_elem xml ''feature_files'' = Some ff"
    and layout: "iter ff = ff # concat (map record_elems records)"
    and counts: "list_all2 record_counts records counts"
    and total: "num_digits (sum_list counts) \<le> int_max_str_digits"
  shows "generate_summary_report fmt p w =
     (Inr (join_lines
            (summary_lines fmt program version command_line start_time elapsed @
             [heading5 fmt ''Scanner Results''] @ map (record_bullet fmt) records),
           decimal (sum_list counts) @ '' artifacts have been extracted.''),
      called p w) \<and>
     length (map (record_bullet fmt) records) = length counts"
proof -
  have "generate_summary_report fmt p w =
     (Inr (join_lines
            (summary_lines fmt program version command_line start_time elapsed @
             [heading5 fmt ''Scanner Results''] @ map (record_bullet fmt) records),
           decimal (sum_list counts) @ '' artifacts have been extracted.''),
      called p w)"
    by (simp add: report_of_document [OF doc] try_body_records [OF meta sect layout counts]
        return_report_within_limit [OF total])
  moreover have "length (map (record_bullet fmt) records) = length counts"
    using counts by (simp add: list_all2_lengthD)
  ultimately show ?thesis by simp
qed

theorem count_conservation_witness:
  "generate_summary_report markdown ''/out/img''
     (world_of (Some (Document (example_document [flat_section])))) =
     (Inr (join_lines
            [''#### Bulk Extractor Results'',
             ''##### Run Summary'',
             ''* Program: bulk_extractor - 1.6.0'',
             ''* Command Line: bulk_extractor in -o out'',
             ''* Start Time: 2020-01-01T00:00:00Z'',
             ''* Elapsed Time: 42'',
             ''##### Scanner Results'',
             ''* email:5'',
             ''* url:10''],
           ''15 artifacts have been extracted.''),
      called ''/out/img'' (world_of (Some (Document (example_document [flat_section])))))"
proof -
  let ?records = "[(marker [], leaf ''name'' ''email'', leaf ''count'' ''5''),
                   (marker [], leaf ''name'' ''url'', leaf ''count'' ''10'')]"
  have layout: "iter flat_section = flat_section # concat (map record_elems ?records)"
    by (simp add: flat_section_def marker_def leaf_def record_elems_def)
  have counts: "list_all2 record_counts ?records [5, 10]"
    by (simp add: record_counts_def marker_def leaf_def py_int_examples)
  have sect: "find_elem (example_document [flat_section]) ''feature_files'' = Some flat_section"
    by (simp add: example_section flat_section_def)
  have total: "num_digits (sum_list [5, 10]) \<le> int_max_str_digits"
    by (simp add: num_digits_def int_max_str_digits_def str_nat.simps)
  show ?thesis
    using count_conservation
      [OF world_of_report example_metadata sect layout counts total, of markdown]
    by (simp add: summary_lines_def start_lines_def markdown_def record_bullet_def
        format_text_def leaf_def decimal_def str_nat.simps digit_char_def)
qed

text \<open>
  Beyond the digit limit.  A count of 4301 digits is a decimal literal that \<^verbatim>\<open>int\<close>
  rejects at line 132; two counts of 4300 digits whose sum has 4301 digits are read, and
  the formatting of the summary raises at line 139.  Either exception leaves the method.
\<close>

lemma strip_id:
  assumes "s \<noteq> []" and "\<not> is_space (hd s)" and "\<not> is_space (last s)"
  shows "strip s = s"
proof -
  have front: "dropWhile is_space s = s"
    using assms(1,2) by (cases s) simp_all
  have "rev s \<noteq> []" and "\<not> is_space (hd (rev s))"
    using assms(1,3) by (simp_all add: hd_rev)
  then have "dropWhile is_space (rev s) = rev s"
    by (cases "rev s") simp_all
  with front show ?thesis
    by (simp add: strip_def)
qed

lemma digit_val_literals:
  "digit_val CHR ''0'' = Some 0" "digit_val CHR ''5'' = Some 5"
  by code_simp+

lemma py_int_long_count: "py_int (Some long_count) = Inl (ValueError long_count)"
proof -
  have "strip long_count = long_count"
    by (rule strip_id) (simp_all add: long_count_def is_space_def)
  moreover have "hd long_count = CHR ''9''"
    by (simp add: long_count_def)
  moreover have "int_max_str_digits < length (filter (\<lambda>c. c \<noteq> CHR ''_'') long_count)"
    by (simp add: long_count_def int_max_str_digits_def)
  ultimately show ?thesis
    by (simp add: py_int_def Let_def split: option.split)
qed

lemma parse_digits_zeros:
  "parse_digits acc (replicate k CHR ''0'') = Some (acc * 10 ^ k)"
proof (induction k arbitrary: acc)
  case 0
  show ?case by simp
next
  case (Suc k)
  show ?case
  proof (cases k)
    case 0
    then show ?thesis by (simp add: digit_val_literals)
  next
    case (Suc m)
    with Suc.IH [of "acc * 10"] show ?thesis
      by (simp add: digit_val_literals mult.assoc)
  qed
qed

lemma py_int_half_count:
  assumes "Suc k \<le> int_max_str_digits"
  shows "py_int (Some (half_count k)) = Inr (5 * 10 ^ k)"
proof -
  have "last (half_count k) = CHR ''5'' \<or> last (half_count k) = CHR ''0''"
    by (cases k) (simp_all add: half_count_def)
  then have "\<not> is_space (last (half_count k))"
    by (auto simp: is_space_def)
  then have "strip (half_count k) = half_count k"
    by (intro strip_id) (simp_all add: half_count_def is_space_def)
  moreover have "parse_decimal (half_count k) = Some (5 * 10 ^ k)"
    by (simp add: parse_decimal_def half_count_def digit_val_literals parse_digits_zeros)
  moreover have "length (filter (\<lambda>c. c \<noteq> CHR ''_'') (half_count k)) = Suc k"
    by (simp add: half_count_def)
  ultimately show ?thesis
    using assms by (simp add: py_int_def Let_def half_count_def)
qed

lemma length_str_nat_power: "length (str_nat (10 ^ k)) = Suc k"
proof (induction k)
  case 0
  show ?case by (simp add: str_nat.simps)
next
  case (Suc k)
  have "(10::nat) \<le> 10 ^ Suc k" by simp
  then have "str_nat (10 ^ Suc k) =
      str_nat (10 ^ Suc k div 10) @ [digit_char (10 ^ Suc k mod 10)]"
    by (subst str_nat.simps) simp
  with Suc show ?case by simp
qed

lemma overflow_raises:
  assumes fits: "Suc k \<le> int_max_str_digits"
    and over: "int_max_str_digits < Suc (Suc k)"
  shows "generate_summary_report fmt ''/out/img''
           (world_of (Some (Document (example_document [overflow_section k])))) =
         (Inl (ValueError limit_message),
          called ''/out/img'' (world_of (Some (Document (example_document [overflow_section k])))))"
proof -
  let ?records = "[(marker [leaf ''name'' ''email'', leaf ''count'' (half_count k)],
                    leaf ''name'' ''email'', leaf ''count'' (half_count k)),
                   (marker [leaf ''name'' ''url'', leaf ''count'' (half_count k)],
                    leaf ''name'' ''url'', leaf ''count'' (half_count k))]"
  have sect: "find_elem (example_document [overflow_section k]) ''feature_files'' =
      Some (overflow_section k)"
    by (simp add: example_section overflow_section_def)
  have layout: "iter (overflow_section k) =
      overflow_section k # concat (map record_elems ?records)"
    by (simp add: overflow_section_def marker_def leaf_def record_elems_def)
  have counts: "list_all2 record_counts ?records [5 * 10 ^ k, 5 * 10 ^ k]"
    by (simp add: record_counts_def marker_def leaf_def py_int_half_count [OF fits])
  have "sum_list [5 * 10 ^ k, 5 * 10 ^ k] = int (10 ^ Suc k)"
    by simp
  then have "num_digits (sum_list [5 * 10 ^ k, 5 * 10 ^ k]) = length (str_nat (10 ^ Suc k))"
    by (simp only: num_digits_def abs_of_nat nat_int)
  then have "num_digits (sum_list [5 * 10 ^ k, 5 * 10 ^ k]) = Suc (Suc k)"
    by (simp only: length_str_nat_power)
  with over have "int_max_str_digits < num_digits (sum_list [5 * 10 ^ k, 5 * 10 ^ k])"
    by simp
  from return_report_beyond_limit [OF this] show ?thesis
    by (simp add: report_of_document [OF world_of_report]
        try_body_records [OF example_metadata sect layout counts])
qed

theorem digit_limit_counterexample:
  "set long_count \<subseteq> set ''0123456789'' \<and>
   find_elem (example_document [long_count_section]) ''feature_files'' =
     Some long_count_section \<and>
   iter long_count_section =
     long_count_section #
     record_elems (marker [leaf ''name'' ''email'', leaf ''count'' long_count],
                   leaf ''name'' ''email'', leaf ''count'' long_count) \<and>
   fst (generate_summary_report markdown ''/out/img''
          (world_of (Some (Document (example_document [long_count_section]))))) =
     Inl (ValueError long_count) \<and>
   fst (generate_summary_report markdown ''/out/img''
          (world_of (Some (Document (example_document [overflow_section 4299]))))) =
     Inl (ValueError limit_message)"
proof -
  have digits: "set long_count \<subseteq> set ''0123456789''"
    by (simp add: long_count_def)
  have sect: "find_elem (example_document [long_count_section]) ''feature_files'' =
      Some long_count_section"
    by (simp add: example_section long_count_section_def)
  have layout: "iter long_count_section =
     long_count_section #
     record_elems (marker [leaf ''name'' ''email'', leaf ''count'' long_count],
                   leaf ''name'' ''email'', leaf ''count'' long_count)"
    by (simp add: long_count_section_def marker_def leaf_def record_elems_def)
  have tg: "tag long_count_section \<noteq> ''feature_file''"
    by (simp add: long_count_section_def)
  have "scanner_loop markdown (iter long_count_section) findings 0 =
      Inl (ValueError long_count)" for findings
    by (simp add: layout record_elems_def tg marker_def leaf_def py_int_long_count)
  then have "try_body markdown (example_document [long_count_section]) =
     (summary_lines markdown (Some ''bulk_extractor'') (Some ''1.6.0'')
        (Some ''bulk_extractor in -o out'') (Some ''2020-01-01T00:00:00Z'') (Some ''42'') @
        [heading5 markdown ''Scanner Results''], 0, Some (ValueError long_count))"
    by (simp add: try_body_metadata [OF example_metadata] sect)
  then have first: "fst (generate_summary_report markdown ''/out/img''
          (world_of (Some (Document (example_document [long_count_section]))))) =
     Inl (ValueError long_count)"
    by (simp add: report_of_document [OF world_of_report])
  have "Suc 4299 \<le> int_max_str_digits" and "int_max_str_digits < Suc (Suc 4299)"
    by (simp_all add: int_max_str_digits_def)
  from overflow_raises [OF this, of markdown]
  have second: "fst (generate_summary_report markdown ''/out/img''
          (world_of (Some (Document (example_document [overflow_section 4299]))))) =
     Inl (ValueError limit_message)"
    by simp
  from digits sect layout first second show ?thesis
    by blast
qed

subsection \<open>A missing field\<close>





subsection \<open>An absent or empty scanner-results section\<close>

lemma iter_childless: "children ff = [] \<Longrightarrow> iter ff = [ff]"
  by (cases ff) simp

text \<open>
  Claim C6, as the code has it.  Let the report have its five run-metadata fields.  When
  it has no scanner-results section, the summary is \<^verbatim>\<open>0 artifacts have been extracted.\<close>
  and the report is the run summary followed by the line
  \<^verbatim>\<open>There are no findings to report.\<close>  When the section is there and has no children,
  the test \<^verbatim>\<open>feature_files is not None\<close> succeeds: the summary is the same, and the
  report is the run summary followed by the heading \<^verbatim>\<open>Scanner Results\<close> with no bullet
  line below it.
\<close>

theorem no_scanner_results:
  assumes doc: "files w (os_path_join p ''report.xml'') = Some (Document xml)"
    and meta: "run_metadata xml program version command_line start_time elapsed"
    and sect: "find_elem xml ''feature_files'' = found"
    and none: "case found of None \<Rightarrow> True | Some ff \<Rightarrow> children ff = []"
  shows "generate_summary_report fmt p w =
     (Inr (join_lines
            (summary_lines fmt program version command_line start_time elapsed @
             [heading5 fmt (if found = None then ''There are no findings to report.''
                            else ''Scanner Results'')]),
           ''0 artifacts have been extracted.''),
      called p w)"
proof (cases found)
  case None
  with sect have "try_body fmt xml =
     (summary_lines fmt program version command_line start_time elapsed @
        [heading5 fmt ''There are no findings to report.''], 0, None)"
    by (simp add: try_body_metadata [OF meta])
  with None show ?thesis
    by (simp add: report_of_document [OF doc] return_report_0)
next
  case (Some ff)
  with none have "iter ff = [ff]" by (simp add: iter_childless)
  moreover have "tag ff \<noteq> ''feature_file''"
    using find_elem_tag [of xml ff] sect Some by simp
  ultimately have "try_body fmt xml =
     (summary_lines fmt program version command_line start_time elapsed @
        [heading5 fmt ''Scanner Results''], 0, None)"
    using sect Some by (simp add: try_body_metadata [OF meta])
  with Some show ?thesis
    by (simp add: report_of_document [OF doc] return_report_0)
qed

theorem no_scanner_results_witness:
  "generate_summary_report markdown ''/out/img''
     (world_of (Some (Document (example_document [])))) =
     (Inr (join_lines
            [''#### Bulk Extractor Results'',
             ''##### Run Summary'',
             ''* Program: bulk_extractor - 1.6.0'',
             ''* Command Line: bulk_extractor in -o out'',
             ''* Start Time: 2020-01-01T00:00:00Z'',
             ''* Elapsed Time: 42'',
             ''##### There are no findings to report.''],
           ''0 artifacts have been extracted.''),
      called ''/out/img'' (world_of (Some (Document (example_document []))))) \<and>
   generate_summary_report markdown ''/out/img''
     (world_of (Some (Document (example_document [empty_section])))) =
     (Inr (join_lines
            [''#### Bulk Extractor Results'',
             ''##### Run Summary'',
             ''* Program: bulk_extractor - 1.6.0'',
             ''* Command Line: bulk_extractor in -o out'',
             ''* Start Time: 2020-01-01T00:00:00Z'',
             ''* Elapsed Time: 42'',
             ''##### Scanner Results''],
           ''0 artifacts have been extracted.''),
      called ''/out/img'' (world_of (Some (Document (example_document [empty_section])))))"
proof -
  have absent: "case (None :: element option) of None \<Rightarrow> True | Some ff \<Rightarrow> children ff = []"
    by simp
  have sect: "find_elem (example_document [empty_section]) ''feature_files'' = Some empty_section"
    by (simp add: example_section empty_section_def)
  have empty: "case Some empty_section of None \<Rightarrow> True | Some ff \<Rightarrow> children ff = []"
    by (simp add: empty_section_def)
  show ?thesis
    using no_scanner_results [OF world_of_report example_metadata example_no_section absent,
        of markdown]
      no_scanner_results [OF world_of_report example_metadata sect empty, of markdown]
    by (simp add: summary_lines_def start_lines_def markdown_def format_text_def)
qed

text \<open>
  The report of the example document with an empty section does not contain the line
  \<^verbatim>\<open>There are no findings to report.\<close>
\<close>

theorem empty_section_counterexample:
  "run_metadata (example_document [empty_section]) (Some ''bulk_extractor'') (Some ''1.6.0'')
     (Some ''bulk_extractor in -o out'') (Some ''2020-01-01T00:00:00Z'') (Some ''42'') \<and>
   find_elem (example_document [empty_section]) ''feature_files'' = Some empty_section \<and>
   children empty_section = [] \<and>
   heading5 markdown ''There are no findings to report.'' \<notin>
     set (report_lines (fst (generate_summary_report markdown ''/out/img''
            (world_of (Some (Document (example_document [empty_section])))))))"
proof -
  have sect: "find_elem (example_document [empty_section]) ''feature_files'' = Some empty_section"
    by (simp add: example_section empty_section_def)
  have it: "iter empty_section = [empty_section]"
    by (simp add: empty_section_def)
  have tg: "tag empty_section \<noteq> ''feature_file''"
    by (simp add: empty_section_def)
  have "try_body markdown (example_document [empty_section]) =
     (summary_lines markdown (Some ''bulk_extractor'') (Some ''1.6.0'')
        (Some ''bulk_extractor in -o out'') (Some ''2020-01-01T00:00:00Z'') (Some ''42'') @
        [heading5 markdown ''Scanner Results''], 0, None)"
    by (simp add: try_body_metadata [OF example_metadata] sect it tg)
  then have "fst (generate_summary_report markdown ''/out/img''
            (world_of (Some (Document (example_document [empty_section]))))) =
     Inr (join_lines
            [''#### Bulk Extractor Results'',
             ''##### Run Summary'',
             ''* Program: bulk_extractor - 1.6.0'',
             ''* Command Line: bulk_extractor in -o out'',
             ''* Start Time: 2020-01-01T00:00:00Z'',
             ''* Elapsed Time: 42'',
             ''##### Scanner Results''],
           ''0 artifacts have been extracted.'')"
    by (simp add: report_of_document [OF world_of_report] return_report_0
        summary_lines_def start_lines_def markdown_def format_text_def)
  then have "heading5 markdown ''There are no findings to report.'' \<notin>
     set (report_lines (fst (generate_summary_report markdown ''/out/img''
            (world_of (Some (Document (example_document [empty_section])))))))"
    by (simp add: report_lines_def split_lines_def markdown_def)
  with sect example_metadata show ?thesis
    by (simp add: empty_section_def)
qed

subsection \<open>Exceptions that leave the loop\<close>

lemma loop_raises:
  assumes meta: "run_metadata xml program version command_line start_time elapsed"
    and sect: "find_elem xml ''feature_files'' = Some ff"
    and layout: "iter ff = ff # concat (map record_elems records) @ rest"
    and counts: "list_all2 record_counts records counts"
    and raises: "\<And>findings k. scanner_loop fmt rest findings k = Inl e"
  shows "\<exists>findings. try_body fmt xml = (findings, 0, Some e)"
proof -
  have "tag ff \<noteq> ''feature_file''"
    using find_elem_tag [OF sect] by simp
  then have "scanner_loop fmt (iter ff) findings k = Inl e" for findings k
    using layout raises
    by (simp add: scanner_loop_skip scanner_loop_records [OF counts])
  then show ?thesis
    by (simp add: try_body_metadata [OF meta] sect)
qed

text \<open>
  Claim C9.  There are reports on which \<^verbatim>\<open>generate_summary_report\<close> raises a conversion
  error: whenever the section holds, after any number of well-formed records, a record
  whose count text \<^verbatim>\<open>int\<close> rejects, the \<^verbatim>\<open>ValueError\<close> (or the \<^verbatim>\<open>TypeError\<close>, when the
  count element has no text) is not caught by \<^verbatim>\<open>except AttributeError\<close> and leaves the
  method; no report is returned.
\<close>

theorem bad_count_raises:
  assumes doc: "files w (os_path_join p ''report.xml'') = Some (Document xml)"
    and meta: "run_metadata xml program version command_line start_time elapsed"
    and sect: "find_elem xml ''feature_files'' = Some ff"
    and layout: "iter ff = ff # concat (map record_elems records) @ m # n # c # rest"
    and counts: "list_all2 record_counts records counts"
    and marker: "tag m = ''feature_file''"
    and ascii: "ascii_text (text_of c)"
    and bad: "py_int (text_of c) = Inl e"
  shows "generate_summary_report fmt p w = (Inl e, called p w) \<and>
         ((text_of c = None \<and> e = TypeError) \<or>
          (\<exists>s. text_of c = Some s \<and> e = ValueError s))"
proof -
  have "scanner_loop fmt (m # n # c # rest) findings k = Inl e" for findings k
    using marker bad by simp
  from loop_raises [OF meta sect layout counts this]
  obtain findings where body: "try_body fmt xml = (findings, 0, Some e)" by blast
  have kind: "(text_of c = None \<and> e = TypeError) \<or>
      (\<exists>s. text_of c = Some s \<and> e = ValueError s)"
    using bad by (auto simp: py_int_def Let_def split: option.splits if_splits)
  then have "generate_summary_report fmt p w = (Inl e, called p w)"
    using body by (auto simp: report_of_document [OF doc])
  with kind show ?thesis by simp
qed

lemma one_record:
  "list_all2 record_counts [(marker [leaf ''name'' ''email'', leaf ''count'' ''5''],
      leaf ''name'' ''email'', leaf ''count'' ''5'')] [5]"
  by (simp add: record_counts_def marker_def leaf_def py_int_examples)

theorem bad_count_raises_witness:
  "generate_summary_report markdown ''/out/img''
     (world_of (Some (Document (example_document [bad_count_section])))) =
     (Inl (ValueError ''ten''),
      called ''/out/img'' (world_of (Some (Document (example_document [bad_count_section])))))"
proof -
  have sect: "find_elem (example_document [bad_count_section]) ''feature_files'' =
      Some bad_count_section"
    by (simp add: example_section bad_count_section_def)
  have layout: "iter bad_count_section =
      bad_count_section #
      concat (map record_elems [(marker [leaf ''name'' ''email'', leaf ''count'' ''5''],
                                 leaf ''name'' ''email'', leaf ''count'' ''5'')]) @
      marker [leaf ''name'' ''url'', leaf ''count'' ''ten''] #
      leaf ''name'' ''url'' # leaf ''count'' ''ten'' # []"
    by (simp add: bad_count_section_def marker_def leaf_def record_elems_def)
  have tg: "tag (marker [leaf ''name'' ''url'', leaf ''count'' ''ten'']) = ''feature_file''"
    by (simp add: marker_def)
  have ascii: "ascii_text (text_of (leaf ''count'' ''ten''))"
    by (simp add: leaf_def ascii_text_def)
  have bad: "py_int (text_of (leaf ''count'' ''ten'')) = Inl (ValueError ''ten'')"
    by (simp add: leaf_def py_int_examples)
  show ?thesis
    using bad_count_raises
      [OF world_of_report example_metadata sect layout one_record tg ascii bad, of markdown]
    by simp
qed

text \<open>
  Claim C10.  There are reports on which \<^verbatim>\<open>generate_summary_report\<close> raises
  \<^verbatim>\<open>StopIteration\<close>: whenever the section ends, after any number of well-formed records,
  with a marker that is followed by fewer than two elements, one of the two calls of
  \<^verbatim>\<open>next\<close> finds the iterator exhausted, and the exception leaves the method.
\<close>

theorem dangling_marker_raises:
  assumes doc: "files w (os_path_join p ''report.xml'') = Some (Document xml)"
    and meta: "run_metadata xml program version command_line start_time elapsed"
    and sect: "find_elem xml ''feature_files'' = Some ff"
    and layout: "iter ff = ff # concat (map record_elems records) @ m # rest"
    and counts: "list_all2 record_counts records counts"
    and marker: "tag m = ''feature_file''"
    and short: "length rest < 2"
  shows "generate_summary_report fmt p w = (Inl StopIteration, called p w)"
proof -
  have "scanner_loop fmt (m # rest) findings k = Inl StopIteration" for findings k
  proof (cases rest)
    case Nil
    with marker show ?thesis by simp
  next
    case (Cons a as)
    with short have "as = []" by simp
    with Cons marker show ?thesis by simp
  qed
  from loop_raises [OF meta sect layout counts this]
  obtain findings where "try_body fmt xml = (findings, 0, Some StopIteration)" by blast
  then show ?thesis
    by (simp add: report_of_document [OF doc])
qed

theorem dangling_marker_raises_witness:
  "generate_summary_report markdown ''/out/img''
     (world_of (Some (Document (example_document [dangling_section])))) =
     (Inl StopIteration,
      called ''/out/img'' (world_of (Some (Document (example_document [dangling_section])))))"
proof -
  have sect: "find_elem (example_document [dangling_section]) ''feature_files'' =
      Some dangling_section"
    by (simp add: example_section dangling_section_def)
  have layout: "iter dangling_section =
      dangling_section #
      concat (map record_elems [(marker [leaf ''name'' ''email'', leaf ''count'' ''5''],
                                 leaf ''name'' ''email'', leaf ''count'' ''5'')]) @
      marker [leaf ''name'' ''url''] # [leaf ''name'' ''url'']"
    by (simp add: dangling_section_def marker_def leaf_def record_elems_def)
  have tg: "tag (marker [leaf ''name'' ''url'']) = ''feature_file''"
    by (simp add: marker_def)
  have short: "length [leaf ''name'' ''url''] < 2"
    by simp
  show ?thesis
    using dangling_marker_raises
      [OF world_of_report example_metadata sect layout one_record tg short, of markdown]
    by simp
qed

subsection \<open>Closing the task result\<close>


lemma example_paths:
  "output_file_path_of example_task example_evidence = ''/out/img''"
  "cmd_of example_task example_evidence = ''bulk_extractor /evidence/img -o /out/img''"
  by (simp_all add: cmd_of_def output_file_path_of_def example_task_def example_evidence_def
      os_path_join_def os_path_basename_def)

text \<open>
  Claim C4.  When the tool invocation raises a \<^verbatim>\<open>TurbiniaException\<close>, \<^verbatim>\<open>run\<close> returns
  without a call of \<^verbatim>\<open>generate_summary_report\<close>, and the result has been closed once,
  with \<^verbatim>\<open>success\<close> false and the message of the exception as status.
\<close>

theorem execution_failure_isolation:
  assumes "execute c (cmd_of self ev) (files w) = (Some (TurbiniaException message), fs)"
  shows "run c fmt self ev result w =
     (None,
      close_result
        (log_result result (''Running Bulk Extractor as ['' @ cmd_of self ev @ '']''))
        False message,
      \<lparr>local_path = output_file_path_of self ev, text_data = None\<rparr>,
      w\<lparr>files := fs\<rparr>) \<and>
     report_calls (snd (snd (snd (run c fmt self ev result w)))) = report_calls w \<and>
     closed (fst (snd (run c fmt self ev result w))) = closed result + 1 \<and>
     success (fst (snd (run c fmt self ev result w))) = Some False \<and>
     status (fst (snd (run c fmt self ev result w))) = Some message"
  using assms
  by (simp add: run_def Let_def except_clause_def close_result_def log_result_def)

theorem execution_failure_isolation_witness:
  "run (tool_raises ''exit 1'') markdown example_task example_evidence fresh_result
     (world_of (Some (Document (example_document [flat_section])))) =
     (None,
      \<lparr> result_log = [''Running Bulk Extractor as [bulk_extractor /evidence/img -o /out/img]''],
        report_data = None, closed = 1, success = Some False, status = Some ''exit 1'' \<rparr>,
      \<lparr> local_path = ''/out/img'', text_data = None \<rparr>,
      world_of (Some (Document (example_document [flat_section]))))"
proof -
  have "execute (tool_raises ''exit 1'') (cmd_of example_task example_evidence)
          (files (world_of (Some (Document (example_document [flat_section]))))) =
        (Some (TurbiniaException ''exit 1''),
         files (world_of (Some (Document (example_document [flat_section])))))"
    by (simp add: tool_raises_def)
  from execution_failure_isolation [OF this, of markdown fresh_result]
  show ?thesis
    by (simp add: example_paths close_result_def log_result_def fresh_result_def)
qed




end
